theory Spec2Isabelle
  imports Complex_Main "HOL-Library.Sublist" "HOL-Library.Multiset"
begin

section \<open>The image-scanning job of \<^verbatim>\<open>admin/ml-image-updates/js/app.js\<close>\<close>

text \<open>
  The program lists a storage bucket, sends each listed image to a remote object-detection
  service, turns the JSON answer into a list of bounding boxes and reports, for every
  configured label, whether some box carries it.

  Strings are \<^typ>\<open>string\<close>: well-formed text as a list of characters. Everything the
  program takes from its surroundings is a field of the record \<open>env\<close> below: the built-in
  functions of the language that are not re-implemented here (case folding and
  \<^verbatim>\<open>JSON.parse\<close>), the constants read from the process environment, the HTTP
  client and the bucket listing. Console output is not modelled.
\<close>

subsection \<open>Values, errors and the two data classes\<close>

text \<open>
  A rejected promise or a thrown exception carries either a message string written in
  \<^verbatim>\<open>app.js\<close> itself, or an error object made by the runtime or a library
  (\<^verbatim>\<open>SyntaxError\<close> of \<^verbatim>\<open>JSON.parse\<close>, the \<^verbatim>\<open>err\<close> of the HTTP client),
  whose type \<open>'e\<close> is left open.
\<close>

datatype 'e failure = Message string | ErrorObject 'e

text \<open>
  Modelled from the spec: the class \<^verbatim>\<open>BoundingBox\<close> of
  \<^verbatim>\<open>cloud/controller/js/bounding-box.js\<close>, which is not among the sources. Its constructor
  \<^verbatim>\<open>new BoundingBox(label, x, y, w, h, score)\<close> stores its six arguments as they are. The
  five values read from a detection record are never inspected by the program, so their type
  \<open>'v\<close> is left open; \<open>None\<close> is JavaScript's \<^verbatim>\<open>undefined\<close>, the value of reading a
  property that an object does not have.
\<close>

record 'v BoundingBox =
  label :: string
  box_x :: "'v option"
  box_y :: "'v option"
  box_w :: "'v option"
  box_h :: "'v option"
  score :: "'v option"

text \<open>
  Modelled from the spec: the class \<^verbatim>\<open>VisionResponse\<close> of
  \<^verbatim>\<open>cloud/controller/js/vision-response.js\<close>, which is not among the sources: an ordered
  sequence of boxes (the field \<^verbatim>\<open>bBoxes\<close> that \<^verbatim>\<open>findObject\<close> reads), empty after
  \<^verbatim>\<open>new VisionResponse()\<close>, to which \<^verbatim>\<open>addBox\<close> appends.
\<close>

record 'v VisionResponse =
  bBoxes :: "'v BoundingBox list"

definition new_VisionResponse :: "'v VisionResponse" where
  "new_VisionResponse = \<lparr>bBoxes = []\<rparr>"

definition addBox :: "'v VisionResponse \<Rightarrow> 'v BoundingBox \<Rightarrow> 'v VisionResponse" where
  "addBox response bBox = response\<lparr>bBoxes := bBoxes response @ [bBox]\<rparr>"

text \<open>
  A parsed detection payload has the shape that the inference service documents: an object
  whose members are arrays of objects. The members of the outer object are listed in the
  order in which \<^verbatim>\<open>for (let key in objResponse)\<close> enumerates them; a detection record is
  looked up by property name only, so it is a map. JSON texts of any other shape are outside
  this model.
\<close>

type_synonym 'v detection = "string \<rightharpoonup> 'v"

type_synonym 'v payload = "(string \<times> 'v detection list) list"

subsection \<open>The surroundings of the program\<close>

record http_request =
  uri :: string
  auth_user :: string
  auth_pass :: string

text \<open>
  What the HTTP client hands to its callback \<^verbatim>\<open>function (err, response, body)\<close>: an error,
  or a response with its status code and body.
\<close>

datatype 'e http_outcome = TransportError 'e | HttpResponse nat string

record ('v, 'e) env =
  toLowerCase :: "string \<Rightarrow> string"
  toLocaleLowerCase :: "string \<Rightarrow> string"
  JSON_parse :: "string \<Rightarrow> 'e + 'v payload"
  OBJECT_INFERENCE_API_URL :: string
  INFERENCE_USER_NAME :: string
  INFERENCE_PASSWORD :: string
  ALL_OBJECT_LABELS :: "string list"
  request :: "http_request \<Rightarrow> 'e http_outcome"
  getFiles :: "string \<Rightarrow> 'e + string list"

subsection \<open>Built-in string functions\<close>

text \<open>
  \<^verbatim>\<open>s.indexOf(pat)\<close>: the least position at which \<open>pat\<close> occurs in \<open>s\<close>, or \<open>-1\<close>.
\<close>

fun indexOf_from :: "nat \<Rightarrow> string \<Rightarrow> string \<Rightarrow> int" where
  "indexOf_from k [] pat = (if pat = [] then int k else - 1)"
| "indexOf_from k (c # s) pat =
     (if prefix pat (c # s) then int k else indexOf_from (Suc k) s pat)"

definition indexOf :: "string \<Rightarrow> string \<Rightarrow> int" where
  "indexOf s pat = indexOf_from 0 s pat"

text \<open>The decimal numeral of a number, as string concatenation prints an integer.\<close>

definition digit_char :: "nat \<Rightarrow> char" where
  "digit_char d = char_of (48 + d)"

function decimal :: "nat \<Rightarrow> string" where
  "decimal n = (if n < 10 then [digit_char n] else decimal (n div 10) @ [digit_char (n mod 10)])"
  by pat_completeness auto
termination
  by (relation "measure (\<lambda>n. n)") auto

declare decimal.simps [simp del]

text \<open>
  \<^verbatim>\<open>encodeURIComponent\<close> on UTF-8 text: letters, digits and \<^verbatim>\<open>- _ . ! ~ * ' ( )\<close> stay,
  every other byte becomes \<^verbatim>\<open>%\<close> and two upper-case hexadecimal digits.
\<close>

definition uri_unreserved :: "char \<Rightarrow> bool" where
  "uri_unreserved c =
     (c \<in> set ''ABCDEFGHIJKLMNOPQRSTUVWXYZabcdefghijklmnopqrstuvwxyz0123456789-_.!~*()''
      \<or> c = CHR 0x27)"

definition hex_digit :: "nat \<Rightarrow> char" where
  "hex_digit d = ''0123456789ABCDEF'' ! (d mod 16)"

definition encode_char :: "char \<Rightarrow> string" where
  "encode_char c =
     (if uri_unreserved c then [c]
      else [CHR ''%'', hex_digit (of_char c div 16), hex_digit (of_char c mod 16)])"

definition encodeURIComponent :: "string \<Rightarrow> string" where
  "encodeURIComponent s = concat (map encode_char s)"

subsection \<open>\<^verbatim>\<open>findObject\<close>\<close>

text \<open>
  \<^verbatim>\<open>for (let i = visionResponse.bBoxes.length; i--;)\<close> visits the indices from the last
  one down to \<open>0\<close> and returns at the first box whose folded label contains the folded
  object type.
\<close>

fun findObject_loop ::
  "('v, 'e) env \<Rightarrow> string \<Rightarrow> 'v BoundingBox list \<Rightarrow> nat \<Rightarrow> bool" where
  "findObject_loop E objectType boxes 0 = False"
| "findObject_loop E objectType boxes (Suc i) =
     (if indexOf (toLocaleLowerCase E (label (boxes ! i))) (toLowerCase E objectType) \<ge> 0
      then True
      else findObject_loop E objectType boxes i)"

definition findObject :: "('v, 'e) env \<Rightarrow> string \<Rightarrow> 'v VisionResponse \<Rightarrow> bool" where
  "findObject E objectType visionResponse =
     findObject_loop E objectType (bBoxes visionResponse) (length (bBoxes visionResponse))"

subsection \<open>\<^verbatim>\<open>createVisionResponse\<close>\<close>

definition new_BoundingBox ::
  "string \<Rightarrow> 'v option \<Rightarrow> 'v option \<Rightarrow> 'v option \<Rightarrow> 'v option \<Rightarrow> 'v option \<Rightarrow> 'v BoundingBox" where
  "new_BoundingBox l a b c d s =
     \<lparr>label = l, box_x = a, box_y = b, box_w = c, box_h = d, score = s\<rparr>"

text \<open>The inner loop, over the indices \<open>i\<close> of \<^verbatim>\<open>objResponse[key]\<close>.\<close>

fun inner_loop :: "string \<Rightarrow> 'v detection list \<Rightarrow> 'v VisionResponse \<Rightarrow> 'v VisionResponse" where
  "inner_loop key [] response = response"
| "inner_loop key (r # rs) response =
     inner_loop key rs
       (addBox response
          (new_BoundingBox key (r ''x'') (r ''y'') (r ''w'') (r ''h'') (r ''score'')))"

text \<open>The outer loop, over the keys of \<^verbatim>\<open>objResponse\<close>.\<close>

fun outer_loop :: "'v payload \<Rightarrow> 'v VisionResponse \<Rightarrow> 'v VisionResponse" where
  "outer_loop [] response = response"
| "outer_loop ((key, rs) # members) response = outer_loop members (inner_loop key rs response)"

definition createVisionResponse ::
  "('v, 'e) env \<Rightarrow> string \<Rightarrow> 'e failure + 'v VisionResponse" where
  "createVisionResponse E jsonAPIResponse =
     (case JSON_parse E jsonAPIResponse of
        Inl e \<Rightarrow> Inl (ErrorObject e)
      | Inr objResponse \<Rightarrow> Inr (outer_loop objResponse new_VisionResponse))"

subsection \<open>Promises\<close>

text \<open>
  A settled promise is a value of a sum type: \<open>Inr v\<close> when it is resolved with \<open>v\<close>,
  \<open>Inl reason\<close> when it is rejected. \<^verbatim>\<open>p.then(f)\<close> runs \<open>f\<close> on the value of a resolved
  \<open>p\<close> and passes a rejection on; \<^verbatim>\<open>p.catch(h)\<close> runs \<open>h\<close> on the reason of a rejected
  \<open>p\<close> and passes a value on. A handler that throws rejects the promise it makes, so a
  handler is a function into the sum type too. \<^verbatim>\<open>await p\<close> in an \<^verbatim>\<open>async\<close> function is
  \<open>promise_then\<close> with the rest of the function as handler.
\<close>

definition promise_then ::
  "'e failure + 'a \<Rightarrow> ('a \<Rightarrow> 'e failure + 'b) \<Rightarrow> 'e failure + 'b" where
  "promise_then p f = (case p of Inl reason \<Rightarrow> Inl reason | Inr v \<Rightarrow> f v)"

definition promise_catch ::
  "'e failure + 'a \<Rightarrow> ('e failure \<Rightarrow> 'e failure + 'a) \<Rightarrow> 'e failure + 'a" where
  "promise_catch p h = (case p of Inl reason \<Rightarrow> h reason | Inr v \<Rightarrow> Inr v)"

subsection \<open>\<^verbatim>\<open>recognizeObjectAPIAsync\<close> and \<^verbatim>\<open>recognizeObjects\<close>\<close>

text \<open>
  The promise made by \<^verbatim>\<open>recognizeObjectAPIAsync\<close> together with the HTTP requests issued
  on the way: \<open>settled\<close> is \<open>Inr body\<close> when the promise is resolved and \<open>Inl reason\<close> when
  it is rejected.
\<close>

record 'e api_call =
  settled :: "'e failure + string"
  requests :: "http_request list"

definition recognizeObjectAPIAsync :: "('v, 'e) env \<Rightarrow> string \<Rightarrow> 'e api_call" where
  "recognizeObjectAPIAsync E gcsURI =
     (if gcsURI = [] then
        \<lparr>settled = Inl (Message ''Error: No gcURI found in sensorMessage''), requests = []\<rparr>
      else if \<not> prefix ''gs://'' gcsURI then
        \<lparr>settled = Inl (Message ''Error: gcsURI must start with gs://''), requests = []\<rparr>
      else
        let apiUrl = OBJECT_INFERENCE_API_URL E @ ''?gcs_uri='' @ encodeURIComponent gcsURI;
            req = \<lparr>uri = apiUrl, auth_user = INFERENCE_USER_NAME E,
                   auth_pass = INFERENCE_PASSWORD E\<rparr>
        in \<lparr>settled =
              (case request E req of
                 TransportError err \<Rightarrow> Inl (ErrorObject err)
               | HttpResponse statusCode body \<Rightarrow>
                   if statusCode \<noteq> 200
                   then Inl (Message (''Error: Received  '' @ decimal statusCode @ '' from API''))
                   else Inr body),
            requests = [req]\<rparr>)"

text \<open>
  \<^verbatim>\<open>recognizeObjects\<close> returns the promise
  \<^verbatim>\<open>recognizeObjectAPIAsync(gcsPath).then(response => Promise.resolve().then(() => createVisionResponse(response))).catch(error => new VisionResponse())\<close>.
\<close>

definition recognizeObjects ::
  "('v, 'e) env \<Rightarrow> string \<Rightarrow> 'e failure + 'v VisionResponse" where
  "recognizeObjects E gcsPath =
     promise_catch
       (promise_then (settled (recognizeObjectAPIAsync E gcsPath))
          (\<lambda>response. promise_then (Inr ()) (\<lambda>_. createVisionResponse E response)))
       (\<lambda>error. Inr new_VisionResponse)"

subsection \<open>\<^verbatim>\<open>processOneFile\<close> and \<^verbatim>\<open>processAllFiles\<close>\<close>

text \<open>
  \<^verbatim>\<open>processOneFile\<close> is an \<^verbatim>\<open>async\<close> function without a return value. What it computes
  is the response it awaited and, for each configured label in order, the value
  \<^verbatim>\<open>found\<close> that it prints; its promise is resolved when it runs to its end and rejected
  when the awaited promise is.
\<close>

record 'v file_report =
  report_response :: "'v VisionResponse"
  report_searches :: "(string \<times> bool) list"

text \<open>
  Two outcomes of the inference call for the object at \<open>gcsPath\<close>: the inference call fails
  (the promise of \<^verbatim>\<open>recognizeObjectAPIAsync\<close> is rejected, or it is resolved and
  \<^verbatim>\<open>createVisionResponse\<close> throws on the body), and the call succeeds with a payload that
  has no record under any key.
\<close>

definition inference_fails :: "('v, 'e) env \<Rightarrow> string \<Rightarrow> bool" where
  "inference_fails E gcsPath =
     (case settled (recognizeObjectAPIAsync E gcsPath) of
        Inl reason \<Rightarrow> True
      | Inr body \<Rightarrow> isl (createVisionResponse E body))"

definition no_detections :: "('v, 'e) env \<Rightarrow> string \<Rightarrow> bool" where
  "no_detections E gcsPath =
     (case settled (recognizeObjectAPIAsync E gcsPath) of
        Inl reason \<Rightarrow> False
      | Inr body \<Rightarrow>
          (case JSON_parse E body of
             Inl e \<Rightarrow> False
           | Inr objResponse \<Rightarrow> list_all (\<lambda>(key, records). records = []) objResponse))"

definition processOneFile ::
  "('v, 'e) env \<Rightarrow> string \<Rightarrow> string \<Rightarrow> 'e failure + 'v file_report" where
  "processOneFile E bucketName fileName =
     promise_then (recognizeObjects E (''gs://'' @ bucketName @ ''/'' @ fileName))
       (\<lambda>visionResponse.
          Inr \<lparr>report_response = visionResponse,
               report_searches = map (\<lambda>label. (label, findObject E label visionResponse))
                                   (ALL_OBJECT_LABELS E)\<rparr>)"

text \<open>
  The state of the \<^verbatim>\<open>forEach\<close> of \<^verbatim>\<open>processAllFiles\<close>: the counter \<open>i\<close> and the calls of
  \<^verbatim>\<open>processOneFile\<close> made so far, each with the file name it was given and the promise
  it made, which \<^verbatim>\<open>processAllFiles\<close> does not await.
\<close>

record ('v, 'e) scan =
  counter :: nat
  calls :: "(string \<times> ('e failure + 'v file_report)) list"

definition forEach_body ::
  "('v, 'e) env \<Rightarrow> string \<Rightarrow> ('v, 'e) scan \<Rightarrow> string \<Rightarrow> ('v, 'e) scan" where
  "forEach_body E bucketName st file =
     (let st' = (if counter st < 2
                 then st\<lparr>calls := calls st @ [(file, processOneFile E bucketName file)]\<rparr>
                 else st)
      in st'\<lparr>counter := counter st' + 1\<rparr>)"

definition processAllFiles ::
  "('v, 'e) env \<Rightarrow> string \<Rightarrow> 'e failure + ('v, 'e) scan" where
  "processAllFiles E bucketName =
     (case getFiles E bucketName of
        Inl e \<Rightarrow> Inl (ErrorObject e)
      | Inr files \<Rightarrow> Inr (foldl (forEach_body E bucketName) \<lparr>counter = 1, calls = []\<rparr> files))"

subsection \<open>An example environment\<close>

text \<open>
  The closed examples below run the program in a small environment: case folding of ASCII
  letters, a parser and an inference service that know the few payloads and files used in
  the examples, and a bucket \<open>b\<close> with three files. The detection values are rationals, the
  error objects are their descriptions.
\<close>

definition ascii_lower_char :: "char \<Rightarrow> char" where
  "ascii_lower_char c =
     (let n = (of_char c :: nat) in if 65 \<le> n \<and> n \<le> 90 then char_of (n + 32) else c)"

definition ascii_lower :: "string \<Rightarrow> string" where
  "ascii_lower s = map ascii_lower_char s"

definition car_text :: string where
  \<open>car_text = ''{"car":[{"x":1,"y":2,"w":3,"h":4,"score":0.9}]}''\<close>

definition car_record :: "rat detection" where
  "car_record = [''x'' \<mapsto> 1, ''y'' \<mapsto> 2, ''w'' \<mapsto> 3, ''h'' \<mapsto> 4, ''score'' \<mapsto> 9 / 10]"

definition sparse_text :: string where
  \<open>sparse_text = ''{"car":[{"x":1}]}''\<close>

definition sparse_record :: "rat detection" where
  "sparse_record = [''x'' \<mapsto> 1]"

definition example_JSON_parse :: "string \<Rightarrow> string + rat payload" where
  "example_JSON_parse s =
     (if s = car_text then Inr [(''car'', [car_record])]
      else if s = sparse_text then Inr [(''car'', [sparse_record])]
      else if s = ''{}'' then Inr []
      else Inl ''SyntaxError: Unexpected token'')"

definition example_request :: "http_request \<Rightarrow> string http_outcome" where
  "example_request req =
     (if uri req = ''http://10.0.0.1:8082/v1/objectInference?gcs_uri=gs%3A%2F%2Fb%2Ff.jpg''
      then HttpResponse 200 car_text
      else if uri req = ''http://10.0.0.1:8082/v1/objectInference?gcs_uri=gs%3A%2F%2Fb%2Fsparse.jpg''
      then HttpResponse 200 sparse_text
      else if uri req = ''http://10.0.0.1:8082/v1/objectInference?gcs_uri=gs%3A%2F%2Fb%2Fempty.jpg''
      then HttpResponse 200 ''{}''
      else if uri req = ''http://10.0.0.1:8082/v1/objectInference?gcs_uri=gs%3A%2F%2Fb%2Fgarbled.jpg''
      then HttpResponse 200 ''<html>''
      else if uri req = ''http://10.0.0.1:8082/v1/objectInference?gcs_uri=gs%3A%2F%2Fb%2Fbroken.jpg''
      then HttpResponse 500 ''Internal Server Error''
      else TransportError ''ECONNREFUSED'')"

definition example_getFiles :: "string \<Rightarrow> string + string list" where
  "example_getFiles bucketName =
     (if bucketName = ''b'' then Inr [''f.jpg'', ''broken.jpg'', ''sparse.jpg'']
      else if bucketName = ''nothing'' then Inr []
      else Inl ''NotFound'')"

definition example_env :: "(rat, string) env" where
  "example_env =
     \<lparr>toLowerCase = ascii_lower,
      toLocaleLowerCase = ascii_lower,
      JSON_parse = example_JSON_parse,
      OBJECT_INFERENCE_API_URL = ''http://10.0.0.1:8082/v1/objectInference'',
      INFERENCE_USER_NAME = ''user'',
      INFERENCE_PASSWORD = ''secret'',
      ALL_OBJECT_LABELS = [''car'', ''pedestrian''],
      request = example_request,
      getFiles = example_getFiles\<rparr>"

text \<open>A box that carries only a label, for the examples about \<^verbatim>\<open>findObject\<close>.\<close>

definition labelled :: "string \<Rightarrow> rat BoundingBox" where
  "labelled l = new_BoundingBox l None None None None None"

text \<open>
  The same environment in a runtime whose default locale is Turkish. There
  \<^verbatim>\<open>toLocaleLowerCase\<close> sends the capital letter \<open>I\<close> to the dotless small letter U+0131
  (the bytes \<open>C4 B1\<close> in UTF-8), while \<^verbatim>\<open>toLowerCase\<close>, which ignores the locale, sends it
  to \<open>i\<close> as everywhere else.
\<close>

definition turkish_lower_char :: "char \<Rightarrow> string" where
  "turkish_lower_char c =
     (if c = CHR ''I'' then [CHR 0xC4, CHR 0xB1] else [ascii_lower_char c])"

definition turkish_lower :: "string \<Rightarrow> string" where
  "turkish_lower s = concat (map turkish_lower_char s)"

definition turkish_env :: "(rat, string) env" where
  "turkish_env = example_env\<lparr>toLocaleLowerCase := turkish_lower\<rparr>"

section \<open>Properties\<close>

subsection \<open>Built-in functions\<close>

lemma indexOf_from_sublist: "0 \<le> indexOf_from k s pat \<longleftrightarrow> sublist pat s"
  by (induction s arbitrary: k) (auto simp: sublist_Cons_right)

lemma indexOf_sublist: "0 \<le> indexOf s pat \<longleftrightarrow> sublist pat s"
  by (simp add: indexOf_def indexOf_from_sublist)

lemma encodeURIComponent_example:
  "encodeURIComponent ''gs://camera-9-roman-test-oct9/image1.jpg''
     = ''gs%3A%2F%2Fcamera-9-roman-test-oct9%2Fimage1.jpg''"
  by code_simp

lemma decimal_example: "decimal 500 = ''500'' \<and> decimal 404 = ''404'' \<and> decimal 7 = ''7''"
  by code_simp

lemma ascii_lower_example: "ascii_lower ''Car_2'' = ''car_2'' \<and> ascii_lower [] = []"
  by code_simp

subsection \<open>The loop of \<^verbatim>\<open>findObject\<close>\<close>

lemma findObject_loop_iff:
  "n \<le> length boxes \<Longrightarrow>
   findObject_loop E t boxes n \<longleftrightarrow>
     (\<exists>i<n. sublist (toLowerCase E t) (toLocaleLowerCase E (label (boxes ! i))))"
  by (induction n) (auto simp: indexOf_sublist less_Suc_eq)

lemma findObject_set:
  "findObject E t r \<longleftrightarrow>
     (\<exists>b\<in>set (bBoxes r). sublist (toLowerCase E t) (toLocaleLowerCase E (label b)))"
  unfolding findObject_def by (simp add: findObject_loop_iff) (metis in_set_conv_nth)

subsection \<open>Evaluating the example environment\<close>

lemma example_env_simps:
  "toLowerCase example_env = ascii_lower"
  "toLocaleLowerCase example_env = ascii_lower"
  "JSON_parse example_env = example_JSON_parse"
  "OBJECT_INFERENCE_API_URL example_env = ''http://10.0.0.1:8082/v1/objectInference''"
  "INFERENCE_USER_NAME example_env = ''user''"
  "INFERENCE_PASSWORD example_env = ''secret''"
  "ALL_OBJECT_LABELS example_env = [''car'', ''pedestrian'']"
  "request example_env = example_request"
  "getFiles example_env = example_getFiles"
  by (simp_all add: example_env_def)

lemma label_labelled: "label (labelled l) = l"
  by (simp add: labelled_def new_BoundingBox_def)

lemma ascii_lower_values:
  "ascii_lower ''car'' = ''car''"
  "ascii_lower ''tractor'' = ''tractor''"
  "ascii_lower ''Car'' = ''car''"
  "ascii_lower ''car_2'' = ''car_2''"
  "ascii_lower ''Tractor'' = ''tractor''"
  "ascii_lower ''pedestrian'' = ''pedestrian''"
  "ascii_lower [] = []"
  by code_simp+

subsection \<open>Label matching\<close>

text \<open>
  What \<^verbatim>\<open>findObject\<close> computes. Line 91 of the source folds the label with
  \<^verbatim>\<open>toLocaleLowerCase\<close> and the object type with \<^verbatim>\<open>toLowerCase\<close>: the function returns
  true if and only if some box has a label whose locale-folded form contains the
  object type's locale-independent fold as a substring; for the empty response it returns
  false.
\<close>

theorem findObject_iff_label_contains:
  "(findObject E objectType visionResponse \<longleftrightarrow>
      (\<exists>b\<in>set (bBoxes visionResponse).
         sublist (toLowerCase E objectType) (toLocaleLowerCase E (label b))))
   \<and> \<not> findObject E objectType new_VisionResponse"
  by (simp add: findObject_set new_VisionResponse_def)

text \<open>
  With the labels \<open>Car\<close>, \<open>car_2\<close> and \<open>Tractor\<close> the object type \<open>car\<close> is found; \<open>tractor\<close> is
  not found among the single label \<open>Car\<close>; nothing is found in the empty response.
\<close>

theorem findObject_iff_label_contains_witness:
  "findObject example_env ''car'' \<lparr>bBoxes = [labelled ''Car'', labelled ''car_2'', labelled ''Tractor'']\<rparr>
   \<and> \<not> findObject example_env ''tractor'' \<lparr>bBoxes = [labelled ''Car'']\<rparr>
   \<and> \<not> findObject example_env ''car'' new_VisionResponse"
  using findObject_iff_label_contains
          [of example_env "''car''" "\<lparr>bBoxes = [labelled ''Car'', labelled ''car_2'', labelled ''Tractor'']\<rparr>"]
        findObject_iff_label_contains [of example_env "''tractor''" "\<lparr>bBoxes = [labelled ''Car'']\<rparr>"]
  by (simp add: example_env_simps label_labelled ascii_lower_values sublist_code(3))

text \<open>
  Where the two foldings are the same function, as in every locale whose case mapping is the
  default one, \<^verbatim>\<open>findObject\<close> is the case-insensitive substring match: true if and only
  if some box's lower-cased label contains the lower-cased object type.
\<close>

theorem findObject_single_fold:
  "toLocaleLowerCase E = toLowerCase E \<Longrightarrow>
   findObject E objectType visionResponse \<longleftrightarrow>
     (\<exists>b\<in>set (bBoxes visionResponse).
        sublist (toLowerCase E objectType) (toLowerCase E (label b)))"
  by (simp add: findObject_set)

theorem findObject_single_fold_witness:
  "toLocaleLowerCase example_env = toLowerCase example_env
   \<and> findObject example_env ''CAR'' \<lparr>bBoxes = [labelled ''Tractor'', labelled ''car_2'']\<rparr>"
proof -
  have h: "toLocaleLowerCase example_env = toLowerCase example_env"
    by (simp add: example_env_simps)
  have lower: "ascii_lower ''CAR'' = ''car''"
    by code_simp
  from findObject_single_fold
         [OF h, of "''CAR''" "\<lparr>bBoxes = [labelled ''Tractor'', labelled ''car_2'']\<rparr>"] h
  show ?thesis
    by (simp add: example_env_simps label_labelled ascii_lower_values lower sublist_code(3))
qed

text \<open>
  C1. The claim is the case-insensitive substring match with one lower-casing: true if and
  only if some box's label, lower-cased, contains the lower-cased object type. The source
  misses it where the two foldings of line 91 differ. In the Turkish locale the object type
  \<open>BIKE\<close> is not found in a response whose only box is labelled \<open>BIKE\<close>: the label is folded
  to \<open>b\<close>, dotless i, \<open>ke\<close>, the object type to \<open>bike\<close>, and the first does not contain the
  second, although under either folding alone the folded label is the folded object type.
\<close>

theorem findObject_mixed_folding:
  "\<not> findObject turkish_env ''BIKE'' \<lparr>bBoxes = [labelled ''BIKE'']\<rparr>
   \<and> toLocaleLowerCase turkish_env ''BIKE'' = [CHR ''b'', CHR 0xC4, CHR 0xB1, CHR ''k'', CHR ''e'']
   \<and> toLowerCase turkish_env ''BIKE'' = ''bike''
   \<and> sublist (toLowerCase turkish_env ''BIKE'') (toLowerCase turkish_env ''BIKE'')
   \<and> sublist (toLocaleLowerCase turkish_env ''BIKE'') (toLocaleLowerCase turkish_env ''BIKE'')"
proof -
  have folds:
    "turkish_lower ''BIKE'' = [CHR ''b'', CHR 0xC4, CHR 0xB1, CHR ''k'', CHR ''e'']"
    "ascii_lower ''BIKE'' = ''bike''"
    by code_simp+
  have locale_fold:
    "toLocaleLowerCase turkish_env ''BIKE'' = [CHR ''b'', CHR 0xC4, CHR 0xB1, CHR ''k'', CHR ''e'']"
    by (simp add: turkish_env_def folds)
  have plain_fold: "toLowerCase turkish_env ''BIKE'' = ''bike''"
    by (simp add: turkish_env_def example_env_simps folds)
  have "indexOf (toLocaleLowerCase turkish_env ''BIKE'') (toLowerCase turkish_env ''BIKE'') = - 1"
    unfolding locale_fold plain_fold by (simp add: indexOf_def)
  then have "\<not> findObject turkish_env ''BIKE'' \<lparr>bBoxes = [labelled ''BIKE'']\<rparr>"
    by (simp add: findObject_def label_labelled)
  with locale_fold plain_fold show ?thesis
    by simp
qed

text \<open>
  C9. The result of \<^verbatim>\<open>findObject\<close> does not depend on the order of the boxes: two
  responses whose box sequences are permutations of one another give the same answer for
  every object type.
\<close>

theorem findObject_permutation:
  "mset (bBoxes r1) = mset (bBoxes r2) \<Longrightarrow> findObject E objectType r1 = findObject E objectType r2"
proof -
  assume "mset (bBoxes r1) = mset (bBoxes r2)"
  then have "set (bBoxes r1) = set (bBoxes r2)"
    by (rule mset_eq_setD)
  then show ?thesis
    by (simp add: findObject_set)
qed

theorem findObject_permutation_witness:
  "mset [labelled ''Tractor'', labelled ''Car''] = mset [labelled ''Car'', labelled ''Tractor'']
   \<and> findObject example_env ''car'' \<lparr>bBoxes = [labelled ''Tractor'', labelled ''Car'']\<rparr>
       = findObject example_env ''car'' \<lparr>bBoxes = [labelled ''Car'', labelled ''Tractor'']\<rparr>
   \<and> findObject example_env ''car'' \<lparr>bBoxes = [labelled ''Car'', labelled ''Tractor'']\<rparr>"
proof -
  have p: "mset (bBoxes \<lparr>bBoxes = [labelled ''Tractor'', labelled ''Car'']\<rparr>)
             = mset (bBoxes \<lparr>bBoxes = [labelled ''Car'', labelled ''Tractor'']\<rparr>)"
    by (simp add: add.commute)
  have t: "findObject example_env ''car'' \<lparr>bBoxes = [labelled ''Car'', labelled ''Tractor'']\<rparr>"
    by (simp add: findObject_set example_env_simps label_labelled ascii_lower_values sublist_code(3))
  from findObject_permutation [OF p, of example_env "''car''"] p t show ?thesis
    by simp
qed

text \<open>
  C10. With the empty string as object type, \<^verbatim>\<open>findObject\<close> returns true for every
  response that has a box and false for the empty response. The lower-cased empty string is
  the empty string in every JavaScript runtime; that fact about the built-in is the
  hypothesis on the environment.
\<close>

theorem findObject_empty_target:
  "toLowerCase E [] = [] \<Longrightarrow> findObject E [] visionResponse \<longleftrightarrow> bBoxes visionResponse \<noteq> []"
  by (cases "bBoxes visionResponse") (auto simp: findObject_set)

theorem findObject_empty_target_witness:
  "toLowerCase example_env [] = []
   \<and> findObject example_env [] \<lparr>bBoxes = [labelled ''Tractor'']\<rparr>
   \<and> \<not> findObject example_env [] \<lparr>bBoxes = []\<rparr>"
proof -
  have h: "toLowerCase example_env [] = []"
    by (simp add: example_env_simps ascii_lower_values)
  from findObject_empty_target [OF h, of "\<lparr>bBoxes = [labelled ''Tractor'']\<rparr>"]
       findObject_empty_target [OF h, of "\<lparr>bBoxes = ([] :: rat BoundingBox list)\<rparr>"] h
  show ?thesis by simp
qed

subsection \<open>The loops of \<^verbatim>\<open>createVisionResponse\<close>\<close>

lemma bBoxes_addBox: "bBoxes (addBox resp bBox) = bBoxes resp @ [bBox]"
  by (simp add: addBox_def)

lemma bBoxes_inner_loop:
  "bBoxes (inner_loop key rs resp) =
     bBoxes resp @
     map (\<lambda>r. new_BoundingBox key (r ''x'') (r ''y'') (r ''w'') (r ''h'') (r ''score'')) rs"
  by (induction rs arbitrary: resp) (simp_all add: bBoxes_addBox)

lemma bBoxes_outer_loop:
  "bBoxes (outer_loop members resp) =
     bBoxes resp @
     concat (map (\<lambda>(key, rs).
        map (\<lambda>r. new_BoundingBox key (r ''x'') (r ''y'') (r ''w'') (r ''h'') (r ''score'')) rs)
        members)"
  by (induction members arbitrary: resp) (auto simp: bBoxes_inner_loop)

lemma VisionResponse_eqI: "bBoxes (r :: 'v VisionResponse) = bs \<Longrightarrow> r = \<lparr>bBoxes = bs\<rparr>"
  by (cases r) simp

lemma createVisionResponse_parsed:
  "JSON_parse E s = Inr members \<Longrightarrow>
   createVisionResponse E s =
     Inr \<lparr>bBoxes = concat (map (\<lambda>(key, rs).
        map (\<lambda>r. new_BoundingBox key (r ''x'') (r ''y'') (r ''w'') (r ''h'') (r ''score'')) rs)
        members)\<rparr>"
  by (simp add: createVisionResponse_def, rule VisionResponse_eqI)
     (simp add: bBoxes_outer_loop new_VisionResponse_def)

lemma createVisionResponse_rejected:
  "JSON_parse E s = Inl e \<Longrightarrow> createVisionResponse E s = Inl (ErrorObject e)"
  by (simp add: createVisionResponse_def)

lemma example_parse_values:
  "example_JSON_parse car_text = Inr [(''car'', [car_record])]"
  "example_JSON_parse sparse_text = Inr [(''car'', [sparse_record])]"
  "example_JSON_parse ''{}'' = Inr []"
  "example_JSON_parse ''<html>'' = Inl ''SyntaxError: Unexpected token''"
  by (simp_all add: example_JSON_parse_def car_text_def sparse_text_def)

lemma car_record_values:
  "car_record ''x'' = Some 1" "car_record ''y'' = Some 2" "car_record ''w'' = Some 3"
  "car_record ''h'' = Some 4" "car_record ''score'' = Some (9 / 10)"
  by (simp_all add: car_record_def)

lemma sparse_record_values:
  "sparse_record ''x'' = Some 1" "sparse_record ''y'' = None" "sparse_record ''w'' = None"
  "sparse_record ''h'' = None" "sparse_record ''score'' = None"
  by (simp_all add: sparse_record_def)

lemma length_concat_boxes:
  "length (concat (map (\<lambda>(key, rs). map (f key) rs) members))
     = sum_list (map (\<lambda>(key, records). length records) members)"
  by (induction members) auto

subsection \<open>Parsing the detection payload\<close>

text \<open>
  C2. When the input parses to a detection payload, \<^verbatim>\<open>createVisionResponse\<close> returns a
  response whose number of boxes is the number of records summed over all label keys.
\<close>

theorem createVisionResponse_box_count:
  "JSON_parse E jsonAPIResponse = Inr objResponse \<Longrightarrow>
   \<exists>response. createVisionResponse E jsonAPIResponse = Inr response
      \<and> length (bBoxes response) = sum_list (map (\<lambda>(key, records). length records) objResponse)"
  by (simp add: createVisionResponse_parsed length_concat_boxes)

text \<open>The payload of the spec's end-to-end example has one record and gives one box.\<close>

theorem createVisionResponse_box_count_witness:
  "JSON_parse example_env car_text = Inr [(''car'', [car_record])]
   \<and> (\<exists>response. createVisionResponse example_env car_text = Inr response
        \<and> length (bBoxes response) = 1)"
proof -
  have h: "JSON_parse example_env car_text = Inr [(''car'', [car_record])]"
    by (simp add: example_env_simps example_parse_values)
  from createVisionResponse_box_count [OF h] h show ?thesis
    by simp
qed

text \<open>
  C3. When the input parses to a detection payload, the response holds exactly one box per
  record: its label is the key the record stands under, its five values are what the record
  has under \<open>x\<close>, \<open>y\<close>, \<open>w\<close>, \<open>h\<close> and \<open>score\<close>, and the boxes stand in the order of the keys
  and, under one key, in the order of its records.
\<close>

theorem createVisionResponse_boxes:
  "JSON_parse E jsonAPIResponse = Inr objResponse \<Longrightarrow>
   createVisionResponse E jsonAPIResponse =
     Inr \<lparr>bBoxes = concat (map (\<lambda>(key, records).
        map (\<lambda>r. \<lparr>label = key, box_x = r ''x'', box_y = r ''y'', box_w = r ''w'',
                    box_h = r ''h'', score = r ''score''\<rparr>) records)
        objResponse)\<rparr>"
  using createVisionResponse_parsed [of E jsonAPIResponse objResponse]
  by (simp add: new_BoundingBox_def)

text \<open>The response built from the payload of the spec's end-to-end example.\<close>

theorem createVisionResponse_boxes_witness:
  "JSON_parse example_env car_text = Inr [(''car'', [car_record])]
   \<and> createVisionResponse example_env car_text =
       Inr \<lparr>bBoxes = [\<lparr>label = ''car'', box_x = Some 1, box_y = Some 2, box_w = Some 3,
                       box_h = Some 4, score = Some (9 / 10)\<rparr>]\<rparr>"
proof -
  have h: "JSON_parse example_env car_text = Inr [(''car'', [car_record])]"
    by (simp add: example_env_simps example_parse_values)
  from createVisionResponse_boxes [OF h] h show ?thesis
    by (simp add: car_record_values)
qed

text \<open>
  C4 as stated says that parsing also fails when a record lacks one of the five fields. It
  does not: the record \<^verbatim>\<open>{"x":1}\<close> has no \<open>y\<close>, \<open>w\<close>, \<open>h\<close> or \<open>score\<close>, and
  \<^verbatim>\<open>createVisionResponse\<close> returns a response whose box has \<^verbatim>\<open>undefined\<close> there.
\<close>

theorem createVisionResponse_missing_field_counterexample:
  "sparse_record ''y'' = None
   \<and> JSON_parse example_env sparse_text = Inr [(''car'', [sparse_record])]
   \<and> createVisionResponse example_env sparse_text =
       Inr \<lparr>bBoxes = [\<lparr>label = ''car'', box_x = Some 1, box_y = None, box_w = None,
                       box_h = None, score = None\<rparr>]\<rparr>"
  by (simp add: createVisionResponse_def example_env_simps example_parse_values
      sparse_record_values new_VisionResponse_def addBox_def new_BoundingBox_def)

lemma box_in_concat:
  "(key, records) \<in> set members \<Longrightarrow> r \<in> set records \<Longrightarrow>
   f key r \<in> set (concat (map (\<lambda>(key, rs). map (f key) rs) members))"
  by (induction members) auto

text \<open>
  C4, amended. \<^verbatim>\<open>createVisionResponse\<close> fails when its input is not valid JSON, with the
  error that \<^verbatim>\<open>JSON.parse\<close> throws. When the input parses to a detection payload it does
  not fail, whatever fields its records have: every record gives a box whose values are what
  the record has under the five names, \<^verbatim>\<open>undefined\<close> for a name it lacks.
\<close>

theorem createVisionResponse_failure:
  "(JSON_parse E jsonAPIResponse = Inl e \<longrightarrow>
      createVisionResponse E jsonAPIResponse = Inl (ErrorObject e))
   \<and> (JSON_parse E jsonAPIResponse = Inr objResponse \<longrightarrow>
      (\<exists>response. createVisionResponse E jsonAPIResponse = Inr response
         \<and> (\<forall>(key, records) \<in> set objResponse. \<forall>r \<in> set records.
              new_BoundingBox key (r ''x'') (r ''y'') (r ''w'') (r ''h'') (r ''score'')
                \<in> set (bBoxes response))))"
proof (intro conjI impI)
  assume "JSON_parse E jsonAPIResponse = Inl e"
  then show "createVisionResponse E jsonAPIResponse = Inl (ErrorObject e)"
    by (rule createVisionResponse_rejected)
next
  let ?box = "\<lambda>key r. new_BoundingBox key (r ''x'') (r ''y'') (r ''w'') (r ''h'') (r ''score'')"
  let ?boxes = "concat (map (\<lambda>(key, rs). map (?box key) rs) objResponse)"
  assume "JSON_parse E jsonAPIResponse = Inr objResponse"
  then have built: "createVisionResponse E jsonAPIResponse = Inr \<lparr>bBoxes = ?boxes\<rparr>"
    by (rule createVisionResponse_parsed)
  have "?box key r \<in> set ?boxes" if "(key, records) \<in> set objResponse" "r \<in> set records"
    for key records r
    using that by (rule box_in_concat)
  then have "\<forall>(key, records) \<in> set objResponse. \<forall>r \<in> set records.
      ?box key r \<in> set (bBoxes \<lparr>bBoxes = ?boxes\<rparr>)"
    by auto
  with built
  show "\<exists>response. createVisionResponse E jsonAPIResponse = Inr response
         \<and> (\<forall>(key, records) \<in> set objResponse. \<forall>r \<in> set records.
              ?box key r \<in> set (bBoxes response))"
    by blast
qed

text \<open>The text \<^verbatim>\<open><html>\<close> is rejected; the payload with the record \<^verbatim>\<open>{"x":1}\<close> is not.\<close>

theorem createVisionResponse_failure_witness:
  "JSON_parse example_env ''<html>'' = Inl ''SyntaxError: Unexpected token''
   \<and> createVisionResponse example_env ''<html>'' = Inl (ErrorObject ''SyntaxError: Unexpected token'')
   \<and> JSON_parse example_env sparse_text = Inr [(''car'', [sparse_record])]
   \<and> (\<exists>response. createVisionResponse example_env sparse_text = Inr response
        \<and> new_BoundingBox ''car'' (Some 1) None None None None \<in> set (bBoxes response))"
proof -
  have h1: "JSON_parse example_env ''<html>'' = Inl ''SyntaxError: Unexpected token''"
    by (simp add: example_env_simps example_parse_values)
  have h2: "JSON_parse example_env sparse_text = Inr [(''car'', [sparse_record])]"
    by (simp add: example_env_simps example_parse_values)
  from createVisionResponse_failure
         [of example_env "''<html>''" "''SyntaxError: Unexpected token''" "[]"]
       createVisionResponse_failure
         [of example_env sparse_text "''none''" "[(''car'', [sparse_record])]"]
       h1 h2
  show ?thesis
    by (simp add: sparse_record_values)
qed

subsection \<open>The inference call in the example environment\<close>

lemma encoded_paths:
  "encodeURIComponent ''gs://b/f.jpg'' = ''gs%3A%2F%2Fb%2Ff.jpg''"
  "encodeURIComponent ''gs://b/empty.jpg'' = ''gs%3A%2F%2Fb%2Fempty.jpg''"
  "encodeURIComponent ''gs://b/garbled.jpg'' = ''gs%3A%2F%2Fb%2Fgarbled.jpg''"
  "encodeURIComponent ''gs://b/broken.jpg'' = ''gs%3A%2F%2Fb%2Fbroken.jpg''"
  "encodeURIComponent ''gs://b/offline.jpg'' = ''gs%3A%2F%2Fb%2Foffline.jpg''"
  by code_simp+

lemma decimal_500: "decimal 500 = ''500''"
  by code_simp

lemma example_settled:
  "settled (recognizeObjectAPIAsync example_env ''gs://b/f.jpg'') = Inr car_text"
  "settled (recognizeObjectAPIAsync example_env ''gs://b/empty.jpg'') = Inr ''{}''"
  "settled (recognizeObjectAPIAsync example_env ''gs://b/garbled.jpg'') = Inr ''<html>''"
  "settled (recognizeObjectAPIAsync example_env ''gs://b/broken.jpg'')
     = Inl (Message ''Error: Received  500 from API'')"
  "settled (recognizeObjectAPIAsync example_env ''gs://b/offline.jpg'')
     = Inl (ErrorObject ''ECONNREFUSED'')"
  by (simp_all add: recognizeObjectAPIAsync_def example_env_simps encoded_paths
      example_request_def decimal_500)

subsection \<open>The inference call\<close>

text \<open>
  C5. For a storage URI that is empty or does not begin with \<^verbatim>\<open>gs://\<close>,
  \<^verbatim>\<open>recognizeObjectAPIAsync\<close> rejects its promise at once, with the message for the empty
  URI or the message for the wrong scheme, and issues no HTTP request.
\<close>

theorem recognizeObjectAPIAsync_invalid_input:
  "gcsURI = [] \<or> \<not> prefix ''gs://'' gcsURI \<Longrightarrow>
   recognizeObjectAPIAsync E gcsURI =
     \<lparr>settled = Inl (Message (if gcsURI = [] then ''Error: No gcURI found in sensorMessage''
                               else ''Error: gcsURI must start with gs://'')),
      requests = []\<rparr>"
  by (auto simp: recognizeObjectAPIAsync_def)

text \<open>The empty URI and the URI \<^verbatim>\<open>s3://bucket/file\<close> of the spec's examples.\<close>

theorem recognizeObjectAPIAsync_invalid_input_witness:
  "recognizeObjectAPIAsync example_env [] =
     \<lparr>settled = Inl (Message ''Error: No gcURI found in sensorMessage''), requests = []\<rparr>
   \<and> \<not> prefix ''gs://'' ''s3://bucket/file''
   \<and> recognizeObjectAPIAsync example_env ''s3://bucket/file'' =
     \<lparr>settled = Inl (Message ''Error: gcsURI must start with gs://''), requests = []\<rparr>"
proof -
  have h: "\<not> prefix ''gs://'' ''s3://bucket/file''"
    by simp
  from recognizeObjectAPIAsync_invalid_input [of "[]" example_env]
       recognizeObjectAPIAsync_invalid_input [of "''s3://bucket/file''" example_env] h
  show ?thesis by simp
qed

text \<open>
  C6. For a storage URI that is not empty and begins with \<^verbatim>\<open>gs://\<close>, exactly one request
  is issued, and the promise is resolved with the body exactly when the answer has status
  200, rejected with the client's error object exactly when the transport fails, and rejected
  with the message that prints the status code exactly when the answer has another status.
  One of the three always holds, and the three results are distinct values.
\<close>

theorem recognizeObjectAPIAsync_outcomes:
  assumes "gcsURI \<noteq> []" and "prefix ''gs://'' gcsURI"
    and "req = \<lparr>uri = OBJECT_INFERENCE_API_URL E @ ''?gcs_uri='' @ encodeURIComponent gcsURI,
                  auth_user = INFERENCE_USER_NAME E, auth_pass = INFERENCE_PASSWORD E\<rparr>"
  shows
   "requests (recognizeObjectAPIAsync E gcsURI) = [req]
    \<and> (settled (recognizeObjectAPIAsync E gcsURI) = Inr body
          \<longleftrightarrow> request E req = HttpResponse 200 body)
    \<and> (settled (recognizeObjectAPIAsync E gcsURI) = Inl (ErrorObject err)
          \<longleftrightarrow> request E req = TransportError err)
    \<and> (settled (recognizeObjectAPIAsync E gcsURI) = Inl (Message m)
          \<longleftrightarrow> (\<exists>statusCode b. request E req = HttpResponse statusCode b \<and> statusCode \<noteq> 200
                \<and> m = ''Error: Received  '' @ decimal statusCode @ '' from API''))
    \<and> ((\<exists>b. request E req = HttpResponse 200 b
              \<and> settled (recognizeObjectAPIAsync E gcsURI) = Inr b)
        \<or> (\<exists>e. request E req = TransportError e
              \<and> settled (recognizeObjectAPIAsync E gcsURI) = Inl (ErrorObject e))
        \<or> (\<exists>statusCode b. request E req = HttpResponse statusCode b \<and> statusCode \<noteq> 200
              \<and> settled (recognizeObjectAPIAsync E gcsURI)
                  = Inl (Message (''Error: Received  '' @ decimal statusCode @ '' from API''))))"
proof (cases "request E req")
  case (TransportError e)
  with assms show ?thesis
    by (simp add: recognizeObjectAPIAsync_def Let_def)
next
  case (HttpResponse statusCode b)
  with assms show ?thesis
    by (cases "statusCode = 200") (auto simp: recognizeObjectAPIAsync_def Let_def)
qed

text \<open>An answered call, a call answered with status 500 and a refused connection.\<close>

theorem recognizeObjectAPIAsync_outcomes_witness:
  "''gs://b/f.jpg'' \<noteq> [] \<and> prefix ''gs://'' ''gs://b/f.jpg''
   \<and> requests (recognizeObjectAPIAsync example_env ''gs://b/f.jpg'') =
       [\<lparr>uri = ''http://10.0.0.1:8082/v1/objectInference?gcs_uri=gs%3A%2F%2Fb%2Ff.jpg'',
         auth_user = ''user'', auth_pass = ''secret''\<rparr>]
   \<and> settled (recognizeObjectAPIAsync example_env ''gs://b/f.jpg'') = Inr car_text
   \<and> settled (recognizeObjectAPIAsync example_env ''gs://b/broken.jpg'')
       = Inl (Message ''Error: Received  500 from API'')
   \<and> settled (recognizeObjectAPIAsync example_env ''gs://b/offline.jpg'')
       = Inl (ErrorObject ''ECONNREFUSED'')"
proof -
  let ?ok = "\<lparr>uri = ''http://10.0.0.1:8082/v1/objectInference?gcs_uri=gs%3A%2F%2Fb%2Ff.jpg'',
              auth_user = ''user'', auth_pass = ''secret''\<rparr>"
  let ?broken = "\<lparr>uri = ''http://10.0.0.1:8082/v1/objectInference?gcs_uri=gs%3A%2F%2Fb%2Fbroken.jpg'',
              auth_user = ''user'', auth_pass = ''secret''\<rparr>"
  let ?offline = "\<lparr>uri = ''http://10.0.0.1:8082/v1/objectInference?gcs_uri=gs%3A%2F%2Fb%2Foffline.jpg'',
              auth_user = ''user'', auth_pass = ''secret''\<rparr>"
  have valid: "''gs://b/f.jpg'' \<noteq> []" "prefix ''gs://'' ''gs://b/f.jpg''"
    "''gs://b/broken.jpg'' \<noteq> []" "prefix ''gs://'' ''gs://b/broken.jpg''"
    "''gs://b/offline.jpg'' \<noteq> []" "prefix ''gs://'' ''gs://b/offline.jpg''"
    by simp_all
  have reqs:
    "?ok = \<lparr>uri = OBJECT_INFERENCE_API_URL example_env @ ''?gcs_uri=''
                    @ encodeURIComponent ''gs://b/f.jpg'',
              auth_user = INFERENCE_USER_NAME example_env,
              auth_pass = INFERENCE_PASSWORD example_env\<rparr>"
    "?broken = \<lparr>uri = OBJECT_INFERENCE_API_URL example_env @ ''?gcs_uri=''
                    @ encodeURIComponent ''gs://b/broken.jpg'',
              auth_user = INFERENCE_USER_NAME example_env,
              auth_pass = INFERENCE_PASSWORD example_env\<rparr>"
    "?offline = \<lparr>uri = OBJECT_INFERENCE_API_URL example_env @ ''?gcs_uri=''
                    @ encodeURIComponent ''gs://b/offline.jpg'',
              auth_user = INFERENCE_USER_NAME example_env,
              auth_pass = INFERENCE_PASSWORD example_env\<rparr>"
    by (simp_all add: example_env_simps encoded_paths)
  have answers:
    "request example_env ?ok = HttpResponse 200 car_text"
    "request example_env ?broken = HttpResponse 500 ''Internal Server Error''"
    "request example_env ?offline = TransportError ''ECONNREFUSED''"
    by (simp_all add: example_env_simps example_request_def)
  from recognizeObjectAPIAsync_outcomes
         [OF valid(1) valid(2) reqs(1), of car_text "''none''" "''none''"]
       recognizeObjectAPIAsync_outcomes
         [OF valid(3) valid(4) reqs(2), of "''none''" "''none''" "''Error: Received  500 from API''"]
       recognizeObjectAPIAsync_outcomes
         [OF valid(5) valid(6) reqs(3), of "''none''" "''ECONNREFUSED''" "''none''"]
       valid answers
  show ?thesis
    by (simp add: decimal_500)
qed

subsection \<open>Failures of the inference call\<close>

lemma recognizeObjects_resolved: "\<exists>visionResponse. recognizeObjects E gcsPath = Inr visionResponse"
  by (simp add: recognizeObjects_def promise_catch_def promise_then_def split: sum.splits)

lemma processOneFile_resolved: "\<exists>report. processOneFile E bucketName fileName = Inr report"
  using recognizeObjects_resolved [of E "''gs://'' @ bucketName @ ''/'' @ fileName"]
  by (auto simp: processOneFile_def promise_then_def)

lemma recognizeObjects_fails:
  "inference_fails E gcsPath \<Longrightarrow> recognizeObjects E gcsPath = Inr new_VisionResponse"
  by (auto simp: inference_fails_def recognizeObjects_def promise_catch_def promise_then_def
      split: sum.splits)

lemma outer_loop_no_records:
  "list_all (\<lambda>(key, records). records = []) members \<Longrightarrow> outer_loop members resp = resp"
  by (induction members arbitrary: resp) auto

lemma recognizeObjects_no_detections:
  "no_detections E gcsPath \<Longrightarrow> recognizeObjects E gcsPath = Inr new_VisionResponse"
  by (auto simp: no_detections_def recognizeObjects_def createVisionResponse_def
      promise_catch_def promise_then_def outer_loop_no_records split: sum.splits)

lemma findObject_new_VisionResponse: "\<not> findObject E objectType new_VisionResponse"
  by (simp add: findObject_def new_VisionResponse_def)

lemma processOneFile_empty:
  "recognizeObjects E (''gs://'' @ bucketName @ ''/'' @ fileName) = Inr new_VisionResponse \<Longrightarrow>
   processOneFile E bucketName fileName =
     Inr \<lparr>report_response = new_VisionResponse,
          report_searches = map (\<lambda>label. (label, False)) (ALL_OBJECT_LABELS E)\<rparr>"
  by (simp add: processOneFile_def promise_then_def findObject_new_VisionResponse)

text \<open>
  C7. The promise of \<^verbatim>\<open>processOneFile\<close> is never rejected: no error reaches its caller.
  When the inference call fails, by a rejected promise of any kind or by a body that does
  not parse, \<^verbatim>\<open>recognizeObjects\<close> is resolved with the empty response; so
  \<^verbatim>\<open>processOneFile\<close> runs to its end on a response without boxes and finds no label,
  which is exactly what it computes for a file whose payload holds no detection.
\<close>

theorem processOneFile_swallows_failures:
  "(\<exists>report. processOneFile E bucketName fileName = Inr report)
   \<and> (inference_fails E gcsPath \<longrightarrow> recognizeObjects E gcsPath = Inr \<lparr>bBoxes = []\<rparr>)
   \<and> (inference_fails E (''gs://'' @ bucketName @ ''/'' @ fileName)
        \<or> no_detections E (''gs://'' @ bucketName @ ''/'' @ fileName) \<longrightarrow>
      processOneFile E bucketName fileName =
        Inr \<lparr>report_response = \<lparr>bBoxes = []\<rparr>,
             report_searches = map (\<lambda>label. (label, False)) (ALL_OBJECT_LABELS E)\<rparr>)"
proof (intro conjI impI)
  show "\<exists>report. processOneFile E bucketName fileName = Inr report"
    by (rule processOneFile_resolved)
next
  assume "inference_fails E gcsPath"
  then show "recognizeObjects E gcsPath = Inr \<lparr>bBoxes = []\<rparr>"
    by (simp add: recognizeObjects_fails new_VisionResponse_def)
next
  assume "inference_fails E (''gs://'' @ bucketName @ ''/'' @ fileName)
        \<or> no_detections E (''gs://'' @ bucketName @ ''/'' @ fileName)"
  then have "recognizeObjects E (''gs://'' @ bucketName @ ''/'' @ fileName) = Inr new_VisionResponse"
    using recognizeObjects_fails recognizeObjects_no_detections by blast
  from processOneFile_empty [OF this]
  show "processOneFile E bucketName fileName =
        Inr \<lparr>report_response = \<lparr>bBoxes = []\<rparr>,
             report_searches = map (\<lambda>label. (label, False)) (ALL_OBJECT_LABELS E)\<rparr>"
    by (simp add: new_VisionResponse_def)
qed

lemma example_invalid_input: "inference_fails example_env ''s3://b/f.jpg''"
  by (simp add: inference_fails_def recognizeObjectAPIAsync_def)

lemma example_failures:
  "inference_fails example_env ''gs://b/broken.jpg''"
  "inference_fails example_env ''gs://b/offline.jpg''"
  "inference_fails example_env ''gs://b/garbled.jpg''"
  "no_detections example_env ''gs://b/empty.jpg''"
  by (simp_all add: inference_fails_def no_detections_def example_settled
      createVisionResponse_def example_env_simps example_parse_values)

text \<open>
  A URI with the wrong scheme, a status 500, a refused connection and a body that is not
  JSON, beside a file whose payload is \<^verbatim>\<open>{}\<close>: the same report every time.
\<close>

theorem processOneFile_swallows_failures_witness:
  "inference_fails example_env ''s3://b/f.jpg''
   \<and> recognizeObjects example_env ''s3://b/f.jpg'' = Inr \<lparr>bBoxes = []\<rparr>
   \<and> inference_fails example_env ''gs://b/broken.jpg''
   \<and> processOneFile example_env ''b'' ''broken.jpg'' =
       Inr \<lparr>report_response = \<lparr>bBoxes = []\<rparr>,
            report_searches = [(''car'', False), (''pedestrian'', False)]\<rparr>
   \<and> inference_fails example_env ''gs://b/offline.jpg''
   \<and> processOneFile example_env ''b'' ''offline.jpg'' =
       Inr \<lparr>report_response = \<lparr>bBoxes = []\<rparr>,
            report_searches = [(''car'', False), (''pedestrian'', False)]\<rparr>
   \<and> inference_fails example_env ''gs://b/garbled.jpg''
   \<and> processOneFile example_env ''b'' ''garbled.jpg'' =
       Inr \<lparr>report_response = \<lparr>bBoxes = []\<rparr>,
            report_searches = [(''car'', False), (''pedestrian'', False)]\<rparr>
   \<and> no_detections example_env ''gs://b/empty.jpg''
   \<and> processOneFile example_env ''b'' ''empty.jpg'' =
       Inr \<lparr>report_response = \<lparr>bBoxes = []\<rparr>,
            report_searches = [(''car'', False), (''pedestrian'', False)]\<rparr>"
  using processOneFile_swallows_failures [of example_env "''b''" "''broken.jpg''" "''s3://b/f.jpg''"]
        processOneFile_swallows_failures [of example_env "''b''" "''offline.jpg''" "''s3://b/f.jpg''"]
        processOneFile_swallows_failures [of example_env "''b''" "''garbled.jpg''" "''s3://b/f.jpg''"]
        processOneFile_swallows_failures [of example_env "''b''" "''empty.jpg''" "''s3://b/f.jpg''"]
        example_invalid_input example_failures
  by (simp add: example_env_simps)

subsection \<open>The scan of the bucket\<close>

lemma forEach_body_step:
  "forEach_body E bucketName \<lparr>counter = c, calls = cs\<rparr> f =
     \<lparr>counter = Suc c,
      calls = (if c < 2 then cs @ [(f, processOneFile E bucketName f)] else cs)\<rparr>"
  by (simp add: forEach_body_def)

lemma foldl_forEach_body:
  "foldl (forEach_body E bucketName) \<lparr>counter = c, calls = cs\<rparr> files =
     \<lparr>counter = c + length files,
      calls = cs @ map (\<lambda>file. (file, processOneFile E bucketName file)) (take (2 - c) files)\<rparr>"
proof (induction files arbitrary: c cs)
  case Nil
  show ?case by simp
next
  case (Cons f fs)
  show ?case
  proof (cases "c < 2")
    case True
    then have "take (2 - c) (f # fs) = f # take (2 - Suc c) fs"
      by (simp add: take_Cons')
    with True show ?thesis
      by (simp add: forEach_body_step Cons.IH)
  next
    case False
    then show ?thesis
      by (simp add: forEach_body_step Cons.IH)
  qed
qed

lemma example_report:
  "processOneFile example_env ''b'' ''f.jpg'' =
     Inr \<lparr>report_response =
            \<lparr>bBoxes = [\<lparr>label = ''car'', box_x = Some 1, box_y = Some 2, box_w = Some 3,
                            box_h = Some 4, score = Some (9 / 10)\<rparr>]\<rparr>,
          report_searches = [(''car'', True), (''pedestrian'', False)]\<rparr>"
proof -
  have "recognizeObjects example_env ''gs://b/f.jpg'' =
      Inr \<lparr>bBoxes = [\<lparr>label = ''car'', box_x = Some 1, box_y = Some 2, box_w = Some 3,
                          box_h = Some 4, score = Some (9 / 10)\<rparr>]\<rparr>"
    by (simp add: recognizeObjects_def promise_catch_def promise_then_def example_settled
        createVisionResponse_def example_env_simps example_parse_values car_record_values
        new_VisionResponse_def addBox_def new_BoundingBox_def)
  then show ?thesis
    by (simp add: processOneFile_def promise_then_def example_env_simps findObject_set
        ascii_lower_values sublist_code(3))
qed

text \<open>
  C8. \<^verbatim>\<open>processAllFiles\<close> calls \<^verbatim>\<open>processOneFile\<close> for the first listed file only
  (for none when the listing is empty), and counts every listed file: the counter starts at 1
  and ends at the number of files plus one.
\<close>

theorem processAllFiles_first_file_only:
  "getFiles E bucketName = Inr files \<Longrightarrow>
   processAllFiles E bucketName =
     Inr \<lparr>counter = length files + 1,
          calls = map (\<lambda>file. (file, processOneFile E bucketName file)) (take 1 files)\<rparr>"
  by (simp add: processAllFiles_def foldl_forEach_body)

text \<open>
  A bucket with three files, of which the first is the image of the spec's end-to-end
  example (\<open>car\<close> is found, \<open>pedestrian\<close> is not), and an empty bucket.
\<close>

theorem processAllFiles_first_file_only_witness:
  "getFiles example_env ''b'' = Inr [''f.jpg'', ''broken.jpg'', ''sparse.jpg'']
   \<and> processAllFiles example_env ''b'' =
       Inr \<lparr>counter = 4,
            calls = [(''f.jpg'',
              Inr \<lparr>report_response =
                     \<lparr>bBoxes = [\<lparr>label = ''car'', box_x = Some 1, box_y = Some 2,
                                     box_w = Some 3, box_h = Some 4, score = Some (9 / 10)\<rparr>]\<rparr>,
                   report_searches = [(''car'', True), (''pedestrian'', False)]\<rparr>)]\<rparr>
   \<and> getFiles example_env ''nothing'' = Inr []
   \<and> processAllFiles example_env ''nothing'' = Inr \<lparr>counter = 1, calls = []\<rparr>"
proof -
  have h1: "getFiles example_env ''b'' = Inr [''f.jpg'', ''broken.jpg'', ''sparse.jpg'']"
    by (simp add: example_env_simps example_getFiles_def)
  have h2: "getFiles example_env ''nothing'' = Inr []"
    by (simp add: example_env_simps example_getFiles_def)
  from processAllFiles_first_file_only [OF h1] processAllFiles_first_file_only [OF h2] h1 h2
  show ?thesis
    by (simp add: example_report)
qed

subsection \<open>Further properties of the call chain\<close>

text \<open>
  The promise of \<^verbatim>\<open>recognizeObjects\<close> is resolved for every path: its \<^verbatim>\<open>.catch\<close> turns
  every rejection into a response.
\<close>

theorem recognizeObjects_never_rejects:
  "\<exists>visionResponse. recognizeObjects E gcsPath = Inr visionResponse"
  by (simp add: recognizeObjects_def promise_catch_def promise_then_def split: sum.splits)

text \<open>
  A failure of the bucket listing is not handled: it rejects the promise of
  \<^verbatim>\<open>processAllFiles\<close>, and no file is processed.
\<close>

theorem processAllFiles_listing_failure:
  "getFiles E bucketName = Inl e \<Longrightarrow> processAllFiles E bucketName = Inl (ErrorObject e)"
  by (simp add: processAllFiles_def)

theorem processAllFiles_listing_failure_witness:
  "getFiles example_env ''missing'' = Inl ''NotFound''
   \<and> processAllFiles example_env ''missing'' = Inl (ErrorObject ''NotFound'')"
proof -
  have h: "getFiles example_env ''missing'' = Inl ''NotFound''"
    by (simp add: example_env_simps example_getFiles_def)
  from processAllFiles_listing_failure [OF h] h show ?thesis
    by simp
qed

end
